theory Spec2Isabelle
  imports Main
begin

section \<open>Errors and the request context\<close>

text \<open>
  Modelled from the spec: the type \<^verbatim>\<open>BadRequestError\<close> is declared in a file of the
  package that is not among the sources; the spec calls it the validation-kind error and
  uses nothing of it but its message. A Go \<^verbatim>\<open>error\<close> is an interface value with one
  method, \<^verbatim>\<open>Error() string\<close>, and the only thing \<^verbatim>\<open>service.go\<close> ever asks of an
  error besides its text is the type assertion \<^verbatim>\<open>e.(*BadRequestError)\<close>. So an error
  is its dynamic type (a \<^verbatim>\<open>*BadRequestError\<close> or anything else) together with the text
  its \<^verbatim>\<open>Error()\<close> method returns.
\<close>

datatype error = BadRequestError string | OtherError string

fun Error :: "error \<Rightarrow> string" where
  "Error (BadRequestError msg) = msg"
| "Error (OtherError msg) = msg"

text \<open>\<^verbatim>\<open>fmt.Errorf\<close> with a format that has no verb: a plain error with that text.\<close>

definition Errorf :: "string \<Rightarrow> error" where
  "Errorf msg = OtherError msg"

text \<open>
  The part of \<^verbatim>\<open>*http.Request\<close> the dispatcher reads (\<^verbatim>\<open>r.ContentLength\<close>, an
  \<^verbatim>\<open>int64\<close> that is \<open>-1\<close> when the length is unknown), and the part of the
  \<^verbatim>\<open>http.ResponseWriter\<close> that is outside the program's control: the error, if any,
  that a write to the client connection returns.
\<close>

record Request =
  ContentLength :: int

record ResponseWriter =
  WriteFailure :: "error option"

text \<open>
  Modelled from the spec: the type \<^verbatim>\<open>Context\<close> and its methods \<^verbatim>\<open>NewContext\<close>,
  \<^verbatim>\<open>ResponseWritten\<close>, \<^verbatim>\<open>ResponseStatus\<close>, \<^verbatim>\<open>RespondBytes\<close> and
  \<^verbatim>\<open>Header\<close> are declared in a file of the package that is not among the sources.
  The spec describes the request context as created fresh per incoming request, holding
  the raw request and response handles, the extracted path parameters and a
  response-status field that starts unset and is set when a response is written, all
  writes going through a single response-write primitive whose failure is reported to the
  caller. The status is write-once: it "must be set at most once", and a second write is
  a contract violation that "the implementation must prevent or detect". So
  \<^verbatim>\<open>RespondBytes\<close> on a context that already carries a response writes nothing, leaves
  the context as it is and reports an error to its caller. The record keeps, next to the
  status, the response headers (Go's \<^verbatim>\<open>http.Header\<close>: a list of values per key) and
  the list of the responses handed to the writer, oldest first, so that "exactly one
  response" can be stated.
\<close>

record Context =
  Req :: Request
  Params :: "(string \<times> string list) list"
  Writer :: ResponseWriter
  Header :: "string \<rightharpoonup> string list"
  Status :: int
  Responses :: "(int \<times> string) list"

definition NewContext :: "Request \<Rightarrow> ResponseWriter \<Rightarrow> (string \<times> string list) list \<Rightarrow> Context" where
  "NewContext r w params =
     \<lparr>Req = r, Params = params, Writer = w, Header = Map.empty, Status = 0, Responses = []\<rparr>"

definition ResponseStatus :: "Context \<Rightarrow> int" where
  "ResponseStatus ctx = Status ctx"

definition ResponseWritten :: "Context \<Rightarrow> bool" where
  "ResponseWritten ctx = (Status ctx \<noteq> 0)"

definition Header_Set :: "string \<Rightarrow> string \<Rightarrow> Context \<Rightarrow> Context" where
  "Header_Set k v ctx = ctx\<lparr>Header := (Header ctx)(k \<mapsto> [v])\<rparr>"

definition RespondBytes :: "int \<Rightarrow> string \<Rightarrow> Context \<Rightarrow> Context \<times> error option" where
  "RespondBytes code body ctx =
     (if ResponseWritten ctx
      then (ctx, Some (OtherError ''response already written''))
      else (ctx\<lparr>Status := code, Responses := Responses ctx @ [(code, body)]\<rparr>,
            WriteFailure (Writer ctx)))"

section \<open>The built-in error handlers\<close>

text \<open>
  \<^verbatim>\<open>ErrorHandler func(*Context, error)\<close>: the handler mutates the context it is given, so
  the model returns the context it leaves behind. Both built-in handlers only log the
  error that \<^verbatim>\<open>RespondBytes\<close> may return; logging is not part of the model, so that
  error is dropped here exactly where the source stops using it.
\<close>

type_synonym ErrorHandler = "Context \<Rightarrow> error \<Rightarrow> Context"

definition DefaultErrorHandler :: ErrorHandler where
  "DefaultErrorHandler c e =
     (let status = 500;
          (c, status) = (case e of
                           BadRequestError _ \<Rightarrow> (Header_Set ''Content-Type'' ''application/json'' c, 400)
                         | OtherError _ \<Rightarrow> (c, status));
          (c, err) = RespondBytes status (Error e) c
      in c)"

definition TerseErrorHandler :: ErrorHandler where
  "TerseErrorHandler c e =
     (let status = 500;
          body = [];
          (c, status, body) = (case e of
                                 BadRequestError _ \<Rightarrow>
                                   (Header_Set ''Content-Type'' ''application/json'' c, 400, Error e)
                               | OtherError _ \<Rightarrow> (c, status, body));
          (c, err) = RespondBytes status body c
      in c)"

section \<open>Handlers and middleware\<close>

text \<open>
  \<^verbatim>\<open>Handler func(*Context) error\<close>: a handler mutates the context and returns an error
  or \<^verbatim>\<open>nil\<close>; the model returns the context it leaves behind together with the error.
  Handlers and middleware are user code: the model takes them as total functions on the
  context, so a handler that panics, blocks, or changes the service's configuration
  while a request is served is outside it. A \<^verbatim>\<open>nil\<close> function value is modelled only
  where the source tests for it (the decode function and the two error handler fields).
\<close>

type_synonym Handler = "Context \<Rightarrow> Context \<times> error option"

text \<open>
  Modelled from the spec: the type \<^verbatim>\<open>Middleware\<close> is declared in a file of the package
  that is not among the sources; the spec describes a middleware as a transformation
  from a handler to a new handler.
\<close>

type_synonym Middleware = "Handler \<Rightarrow> Handler"

section \<open>Slices of middleware\<close>

text \<open>
  Both middleware lists are Go slices that grow by \<^verbatim>\<open>append\<close>, and
  \<^verbatim>\<open>MiddlewareChain\<close> appends the controller's list to the \<^emph>\<open>application's\<close> slice.
  \<^verbatim>\<open>append\<close> writes into the backing array of its first argument when the capacity
  suffices, so slices can share cells. The model therefore keeps a slice as Go does, as a
  header (array, length, capacity) over a store of arrays. An array is kept as the list
  of its cells that have been written; array \<open>0\<close> is the one of the \<^verbatim>\<open>nil\<close> slice.
  How much capacity a reallocation reserves is left to the Go runtime: it is the field
  \<open>growth\<close> of the store (old capacity, needed length), of which only "at least what is
  needed" is used.
\<close>

record slice =
  ptr :: nat
  len :: nat
  cap :: nat

record memory =
  arrays :: "nat \<Rightarrow> Middleware list"
  brk :: nat
  growth :: "nat \<Rightarrow> nat \<Rightarrow> nat"

definition nil_slice :: slice where
  "nil_slice = \<lparr>ptr = 0, len = 0, cap = 0\<rparr>"

text \<open>The elements \<open>s[0], ..., s[len(s)-1]\<close> of a slice.\<close>

definition cells :: "memory \<Rightarrow> slice \<Rightarrow> Middleware list" where
  "cells m s = take (len s) (arrays m (ptr s))"

text \<open>
  Go's built-in \<^verbatim>\<open>append(s, xs...)\<close>: in place when \<open>len(s) + len(xs) \<le> cap(s)\<close>,
  into a fresh array otherwise. It returns the new slice header and the store.
\<close>

definition go_append :: "memory \<Rightarrow> slice \<Rightarrow> Middleware list \<Rightarrow> slice \<times> memory" where
  "go_append m s xs =
     (let n = len s + length xs;
          a = arrays m (ptr s)
      in if n \<le> cap s
         then (s\<lparr>len := n\<rparr>,
               m\<lparr>arrays := (arrays m)(ptr s := take (len s) a @ xs @ drop n a)\<rparr>)
         else (\<lparr>ptr = brk m, len = n, cap = max n (growth m (cap s) n)\<rparr>,
               m\<lparr>arrays := (arrays m)(brk m := cells m s @ xs), brk := Suc (brk m)\<rparr>))"

section \<open>The application and its controllers\<close>

text \<open>
  The structs \<^verbatim>\<open>Application\<close> and \<^verbatim>\<open>ApplicationController\<close>, without their loggers
  (nothing below depends on what is logged). A function-valued field that may be
  \<^verbatim>\<open>nil\<close> is an \<open>option\<close>. The embedded \<^verbatim>\<open>*version\<close> and the values of the
  \<^verbatim>\<open>versions\<close> map are pointers: they are addresses into a store of version objects
  (below), \<open>None\<close> being the \<^verbatim>\<open>nil\<close> pointer and the \<^verbatim>\<open>nil\<close> map.

  The field \<^verbatim>\<open>app\<close> of a controller is a pointer too. A controller value of the model
  carries the state of the application it points to: it stands for the controller and
  its application as they are at one moment, and \<^verbatim>\<open>ctrl.app.middleware\<close> reads
  \<open>Application.middleware (app ctrl)\<close>.
\<close>

record Application =
  name :: string
  errorHandler :: "ErrorHandler option"
  middleware :: slice
  version :: "nat option"
  versions :: "(string \<rightharpoonup> nat) option"

record ApplicationController =
  app :: Application
  errorHandler :: "ErrorHandler option"
  middleware :: slice

definition New :: "string \<Rightarrow> Application" where
  "New nm = \<lparr>Application.name = nm,
             Application.errorHandler = Some DefaultErrorHandler,
             Application.middleware = nil_slice,
             Application.version = None,
             Application.versions = None\<rparr>"

definition Name :: "Application \<Rightarrow> string" where
  "Name a = Application.name a"

definition Application_Use :: "memory \<Rightarrow> Application \<Rightarrow> Middleware \<Rightarrow> Application \<times> memory" where
  "Application_Use m a mw =
     (let (s, m') = go_append m (Application.middleware a) [mw]
      in (a\<lparr>Application.middleware := s\<rparr>, m'))"

definition Application_ErrorHandler :: "Application \<Rightarrow> ErrorHandler option" where
  "Application_ErrorHandler a = Application.errorHandler a"

definition Application_SetErrorHandler :: "Application \<Rightarrow> ErrorHandler option \<Rightarrow> Application" where
  "Application_SetErrorHandler a handler = a\<lparr>Application.errorHandler := handler\<rparr>"

definition NewController :: "Application \<Rightarrow> string \<Rightarrow> ApplicationController" where
  "NewController a resName =
     \<lparr>app = a,
      ApplicationController.errorHandler = None,
      ApplicationController.middleware = nil_slice\<rparr>"

definition ApplicationController_Use ::
  "memory \<Rightarrow> ApplicationController \<Rightarrow> Middleware \<Rightarrow> ApplicationController \<times> memory" where
  "ApplicationController_Use m ctrl mw =
     (let (s, m') = go_append m (ApplicationController.middleware ctrl) [mw]
      in (ctrl\<lparr>ApplicationController.middleware := s\<rparr>, m'))"

definition MiddlewareChain :: "memory \<Rightarrow> ApplicationController \<Rightarrow> slice \<times> memory" where
  "MiddlewareChain m ctrl =
     go_append m (Application.middleware (app ctrl))
       (cells m (ApplicationController.middleware ctrl))"

definition ApplicationController_ErrorHandler :: "ApplicationController \<Rightarrow> ErrorHandler option" where
  "ApplicationController_ErrorHandler ctrl = ApplicationController.errorHandler ctrl"

definition ApplicationController_SetErrorHandler ::
  "ApplicationController \<Rightarrow> ErrorHandler option \<Rightarrow> ApplicationController" where
  "ApplicationController_SetErrorHandler ctrl handler =
     ctrl\<lparr>ApplicationController.errorHandler := handler\<rparr>"

definition HandleError :: "ApplicationController \<Rightarrow> Context \<Rightarrow> error \<Rightarrow> Context" where
  "HandleError ctrl ctx err =
     (case ApplicationController.errorHandler ctrl of
        Some handler \<Rightarrow> handler ctx err
      | None \<Rightarrow>
          (case Application.errorHandler (app ctrl) of
             Some handler \<Rightarrow> handler ctx err
           | None \<Rightarrow> ctx))"

section \<open>HandleFunc\<close>

text \<open>
  The loop \<^verbatim>\<open>for i := range chain { middleware = chain[ml-i-1](middleware) }\<close> with
  \<open>ml = len(chain)\<close>, started at index \<open>i\<close>; the index \<open>ml-i-1\<close> is within the slice
  whenever the body runs.
\<close>

function wrap_loop :: "nat \<Rightarrow> Middleware list \<Rightarrow> Handler \<Rightarrow> Handler" where
  "wrap_loop i chain mw =
     (if i < length chain
      then wrap_loop (Suc i) chain ((chain ! (length chain - i - 1)) mw)
      else mw)"
  by pat_completeness auto
termination
  by (relation "measure (\<lambda>(i, chain, mw). length chain - i)") auto

text \<open>
  The closure first assigned to the local \<^verbatim>\<open>middleware\<close>: it runs the action unless a
  response was written already, and hands the action's error to \<^verbatim>\<open>HandleError\<close>. It
  reads the controller when it is called, so it takes the controller as it is then.
\<close>

definition HandleFunc_action :: "ApplicationController \<Rightarrow> Handler \<Rightarrow> Handler" where
  "HandleFunc_action ctrl h ctx =
     (if \<not> ResponseWritten ctx
      then (case h ctx of
              (ctx', Some err) \<Rightarrow> (HandleError ctrl ctx' err, None)
            | (ctx', None) \<Rightarrow> (ctx', None))
      else (ctx, None))"

text \<open>The handler that replaces the action when the payload could not be decoded.\<close>

definition HandleFunc_invalid :: "error \<Rightarrow> Handler" where
  \<open>HandleFunc_invalid err ctx =
     (let (ctx', _) =
            RespondBytes 400
              (''{"kind":"invalid request","msg":"invalid JSON: '' @ Error err @ ''"}'') ctx
      in (ctx', None))\<close>

text \<open>
  The function \<^verbatim>\<open>HandleFunc\<close> returns is called once per request, long after
  \<^verbatim>\<open>HandleFunc\<close> itself has returned. What it reads then, it reads as it is then: the
  controller (through the pointer \<^verbatim>\<open>ctrl\<close>) and the cells of \<^verbatim>\<open>chain\<close> (through the
  slice header the closure captured). So the returned function takes the store and the
  controller at the time of the request, next to the arguments of the Go function. The
  wrapped \<^verbatim>\<open>middleware\<close> is built once, from the cells \<^verbatim>\<open>chain\<close> has when
  \<^verbatim>\<open>HandleFunc\<close> runs. The cancellable context derived from \<^verbatim>\<open>RootContext\<close> and the
  logger are not modelled; \<open>nm\<close> is only used for logging.

  The body of the returned function is split at the source's own comments:
  "Load body if any", "Handle invalid payload", "Invoke middleware chain" and "Make sure
  a response is sent back to client".
\<close>

type_synonym HandleFunc =
  "memory \<Rightarrow> ApplicationController \<Rightarrow> ResponseWriter \<Rightarrow> Request \<Rightarrow> (string \<times> string list) list \<Rightarrow> Context"

definition HandleFunc_load_body :: "Handler option \<Rightarrow> Request \<Rightarrow> Handler" where
  "HandleFunc_load_body d r ctx =
     (if ContentLength r > 0
      then (case d of Some decode \<Rightarrow> decode ctx | None \<Rightarrow> (ctx, None))
      else (ctx, None))"

text \<open>
  The value of the local \<^verbatim>\<open>handler\<close> when it is invoked: \<open>built\<close> are the cells of
  \<^verbatim>\<open>chain\<close> when \<^verbatim>\<open>HandleFunc\<close> ran, \<open>now\<close> the cells it has when the request is
  served.
\<close>

definition HandleFunc_handler ::
  "Middleware list \<Rightarrow> Middleware list \<Rightarrow> ApplicationController \<Rightarrow> Handler \<Rightarrow> error option \<Rightarrow> Handler" where
  "HandleFunc_handler built now ctrl h err =
     (case err of
        None \<Rightarrow> wrap_loop 0 built (HandleFunc_action ctrl h)
      | Some e \<Rightarrow> wrap_loop 0 now (HandleFunc_invalid e))"

definition HandleFunc_ensure_response :: "ApplicationController \<Rightarrow> Context \<Rightarrow> Context" where
  "HandleFunc_ensure_response ctrl ctx =
     (if ResponseStatus ctx = 0
      then HandleError ctrl ctx (Errorf ''unhandled request'')
      else ctx)"

definition HandleFunc ::
  "memory \<Rightarrow> ApplicationController \<Rightarrow> string \<Rightarrow> Handler \<Rightarrow> Handler option \<Rightarrow> HandleFunc \<times> memory" where
  "HandleFunc m0 ctrl0 nm h d =
     (let (chain, m1) = MiddlewareChain m0 ctrl0;
          built = cells m1 chain
      in (\<lambda>m ctrl w r params.
            let ctx = NewContext r w params;
                (ctx, err) = HandleFunc_load_body d r ctx;
                handler = HandleFunc_handler built (cells m chain) ctrl h err;
                (ctx, _) = handler ctx
            in HandleFunc_ensure_response ctrl ctx,
          m1))"

section \<open>Versions\<close>

text \<open>
  Modelled from the spec: the types \<^verbatim>\<open>ServeMux\<close>, \<^verbatim>\<open>decoderPool\<close> and
  \<^verbatim>\<open>encoderPool\<close> and the function \<^verbatim>\<open>NewMux\<close> are declared in files that are not
  among the sources. The spec treats the mux as an opaque routing table in which a
  (method, path pattern) pair is registered with a handler: it is the list of the
  registrations, empty when new. The pools stay abstract.
\<close>

typedecl decoderPool

typedecl encoderPool

type_synonym ServeMux = "(string \<times> string \<times> HandleFunc) list"

definition NewMux :: ServeMux where
  "NewMux = []"

definition Handle :: "ServeMux \<Rightarrow> string \<Rightarrow> string \<Rightarrow> HandleFunc \<Rightarrow> ServeMux" where
  "Handle mx method path handle = mx @ [(method, path, handle)]"

record version =
  name :: string
  mux :: ServeMux
  decoderPools :: "string \<rightharpoonup> decoderPool"
  encoderPools :: "string \<rightharpoonup> encoderPool"
  encodableContentTypes :: "string list"

text \<open>
  The version objects live in a store of their own; \<open>fresh\<close> is the address the next
  \<^verbatim>\<open>&version{...}\<close> gets. A function that can panic returns an \<open>option\<close>, \<open>None\<close>
  being the panic.
\<close>

record version_heap =
  objects :: "nat \<rightharpoonup> version"
  fresh :: nat

text \<open>\<^verbatim>\<open>app.versions[name]\<close> read with the comma-ok form (a \<^verbatim>\<open>nil\<close> map has no entry).\<close>

definition versions_lookup :: "Application \<Rightarrow> string \<Rightarrow> nat option" where
  "versions_lookup a nm =
     (case Application.versions a of None \<Rightarrow> None | Some vs \<Rightarrow> vs nm)"

definition newVersion ::
  "version_heap \<Rightarrow> Application \<Rightarrow> string \<Rightarrow> (nat \<times> Application \<times> version_heap) option" where
  "newVersion H a nm =
     (case Application.versions a of
        None \<Rightarrow> None
      | Some vs \<Rightarrow>
          (let p = fresh H;
               H' = H\<lparr>objects := (objects H)(p \<mapsto>
                        \<lparr>version.name = nm,
                         mux = NewMux,
                         decoderPools = Map.empty,
                         encoderPools = Map.empty,
                         encodableContentTypes = []\<rparr>),
                      fresh := Suc p\<rparr>;
               a' = a\<lparr>Application.versions := Some (vs(nm \<mapsto> p))\<rparr>
           in (case versions_lookup a' nm of
                 Some ver \<Rightarrow> Some (ver, a', H')
               | None \<Rightarrow> None)))"

definition GetVersion ::
  "version_heap \<Rightarrow> Application \<Rightarrow> string \<Rightarrow> (nat \<times> Application \<times> version_heap) option" where
  "GetVersion H a nm =
     (let a1 = (if Application.versions a = None
                then a\<lparr>Application.versions := Some Map.empty\<rparr>
                else a)
      in (case versions_lookup a1 nm of
            Some ver \<Rightarrow> Some (ver, a1, H)
          | None \<Rightarrow> newVersion H a1 nm))"

text \<open>
  \<^verbatim>\<open>func (ver *version) ServeMux() ServeMux { return ver.mux }\<close>, called on the
  application through the embedded pointer: reading \<^verbatim>\<open>ver.mux\<close> through a \<^verbatim>\<open>nil\<close>
  pointer panics.
\<close>

definition ServeMux :: "version_heap \<Rightarrow> nat option \<Rightarrow> ServeMux option" where
  "ServeMux H ver =
     (case ver of
        None \<Rightarrow> None
      | Some p \<Rightarrow> (case objects H p of None \<Rightarrow> None | Some v \<Rightarrow> Some (mux v)))"

section \<open>ServeFiles\<close>

text \<open>
  \<^verbatim>\<open>os.Stat\<close> is the file system at the time of the call: \<open>stat\<close> gives the error it
  returns for a file name, if any. The action that serves the file only calls the
  standard library; it is the parameter \<open>serve\<close>. The result is \<open>None\<close> when the call
  panics, and otherwise the returned error with the stores as the call leaves them.
\<close>

definition ServeFiles ::
  "(string \<Rightarrow> error option) \<Rightarrow> (string \<Rightarrow> Handler) \<Rightarrow> memory \<Rightarrow> version_heap \<Rightarrow> Application
     \<Rightarrow> string \<Rightarrow> string \<Rightarrow> (error option \<times> memory \<times> version_heap) option" where
  "ServeFiles stat serve m H a path filename =
     (if CHR '':'' \<in> set path
      then Some (Some (Errorf ''path may only include wildcards that match the entire end of the URL (e.g. *filepath)''), m, H)
      else (case stat filename of
              Some err \<Rightarrow> Some (Some (Errorf (''ServeFiles: '' @ Error err)), m, H)
            | None \<Rightarrow>
                (let ctrl = NewController a ''FileServer'';
                     (handle, m') = HandleFunc m ctrl ''Serve'' (serve filename) None
                 in (case Application.version a of
                       None \<Rightarrow> None
                     | Some p \<Rightarrow>
                         (case ServeMux H (Some p) of
                            None \<Rightarrow> None
                          | Some mx \<Rightarrow>
                              Some (None, m',
                                    H\<lparr>objects := (objects H)(p :=
                                         map_option (\<lambda>v. v\<lparr>mux := Handle mx ''GET'' path handle\<rparr>)
                                           (objects H p))\<rparr>))))))"

section \<open>Vocabulary of the properties\<close>

text \<open>
  None of the following is code of the repository: these definitions only serve to state
  the properties below.

  A middleware "with pre-logic and post-logic": it runs \<open>pre\<close> on the context, then the
  handler it wraps, then \<open>post\<close>, and passes the wrapped handler's error on.
\<close>

definition around :: "(Context \<Rightarrow> Context) \<Rightarrow> (Context \<Rightarrow> Context) \<Rightarrow> Middleware" where
  "around pre post inner ctx = (let (ctx', err) = inner (pre ctx) in (post ctx', err))"

text \<open>A visible step for the examples: add a value to the response header \<open>Trace\<close>.\<close>

definition trace :: "string \<Rightarrow> Context \<Rightarrow> Context" where
  "trace v ctx =
     ctx\<lparr>Header := (Header ctx)(''Trace'' \<mapsto>
            (case Header ctx ''Trace'' of None \<Rightarrow> [v] | Some vs \<Rightarrow> vs @ [v]))\<rparr>"

text \<open>A store in which nothing has been allocated yet, for a given growth policy.\<close>

definition empty_memory :: "(nat \<Rightarrow> nat \<Rightarrow> nat) \<Rightarrow> memory" where
  "empty_memory g = \<lparr>arrays = (\<lambda>_. []), brk = 1, growth = g\<rparr>"

text \<open>
  The configuration phase of one controller and its application: any sequence of calls
  of \<^verbatim>\<open>app.Use\<close>, \<^verbatim>\<open>ctrl.Use\<close>, \<^verbatim>\<open>app.SetErrorHandler\<close>,
  \<^verbatim>\<open>ctrl.SetErrorHandler\<close> and \<^verbatim>\<open>ctrl.MiddlewareChain\<close> (one per
  \<^verbatim>\<open>HandleFunc\<close>; its result is dropped here). \<open>OtherChain xs\<close> is a call of
  \<^verbatim>\<open>MiddlewareChain\<close> by another controller of the same application whose own
  middleware is \<open>xs\<close>: it appends to the application's slice as well.
\<close>

datatype config_op =
    AppUse Middleware
  | CtrlUse Middleware
  | AppSetErrorHandler "ErrorHandler option"
  | CtrlSetErrorHandler "ErrorHandler option"
  | CallChain
  | OtherChain "Middleware list"

fun configure_step :: "config_op \<Rightarrow> memory \<times> ApplicationController \<Rightarrow> memory \<times> ApplicationController" where
  "configure_step (AppUse mw) (m, ctrl) =
     (let (a, m') = Application_Use m (app ctrl) mw in (m', ctrl\<lparr>app := a\<rparr>))"
| "configure_step (CtrlUse mw) (m, ctrl) =
     (let (ctrl', m') = ApplicationController_Use m ctrl mw in (m', ctrl'))"
| "configure_step (AppSetErrorHandler handler) (m, ctrl) =
     (m, ctrl\<lparr>app := Application_SetErrorHandler (app ctrl) handler\<rparr>)"
| "configure_step (CtrlSetErrorHandler handler) (m, ctrl) =
     (m, ApplicationController_SetErrorHandler ctrl handler)"
| "configure_step CallChain (m, ctrl) =
     (let (chain, m') = MiddlewareChain m ctrl in (m', ctrl))"
| "configure_step (OtherChain xs) (m, ctrl) =
     (let (chain, m') = go_append m (Application.middleware (app ctrl)) xs in (m', ctrl))"

fun configure :: "config_op list \<Rightarrow> memory \<times> ApplicationController \<Rightarrow> memory \<times> ApplicationController" where
  "configure [] st = st"
| "configure (op # ops) st = configure ops (configure_step op st)"

text \<open>
  What keeps the two middleware slices of a controller and its application apart in the
  store: each slice lies within the written cells of its array and within its capacity,
  an allocated array is below the allocation mark, and two slices with room share no
  array.
\<close>

definition slice_ok :: "memory \<Rightarrow> slice \<Rightarrow> bool" where
  "slice_ok m s =
     (len s \<le> length (arrays m (ptr s)) \<and> len s \<le> cap s \<and> (cap s = 0 \<or> ptr s < brk m))"

definition config_ok :: "memory \<times> ApplicationController \<Rightarrow> bool" where
  "config_ok st =
     (let m = fst st;
          sa = Application.middleware (app (snd st));
          sc = ApplicationController.middleware (snd st)
      in slice_ok m sa \<and> slice_ok m sc \<and> (cap sa = 0 \<or> cap sc = 0 \<or> ptr sa \<noteq> ptr sc))"

fun sets_error_handler :: "config_op \<Rightarrow> bool" where
  "sets_error_handler (AppSetErrorHandler _) = True"
| "sets_error_handler (CtrlSetErrorHandler _) = True"
| "sets_error_handler _ = False"

definition app_cells :: "memory \<times> ApplicationController \<Rightarrow> Middleware list" where
  "app_cells st = cells (fst st) (Application.middleware (app (snd st)))"

definition ctrl_cells :: "memory \<times> ApplicationController \<Rightarrow> Middleware list" where
  "ctrl_cells st = cells (fst st) (ApplicationController.middleware (snd st))"

fun app_uses :: "config_op list \<Rightarrow> Middleware list" where
  "app_uses [] = []"
| "app_uses (AppUse mw # ops) = mw # app_uses ops"
| "app_uses (_ # ops) = app_uses ops"

fun ctrl_uses :: "config_op list \<Rightarrow> Middleware list" where
  "ctrl_uses [] = []"
| "ctrl_uses (CtrlUse mw # ops) = mw # ctrl_uses ops"
| "ctrl_uses (_ # ops) = ctrl_uses ops"

text \<open>
  The error handler \<^verbatim>\<open>HandleError\<close> ends up calling, if any; and the context as it is
  when the chain invoked by the function that \<^verbatim>\<open>HandleFunc\<close> returned has come back.
\<close>

definition selected_handler :: "ApplicationController \<Rightarrow> ErrorHandler option" where
  "selected_handler ctrl =
     (case ApplicationController.errorHandler ctrl of
        Some handler \<Rightarrow> Some handler
      | None \<Rightarrow> Application.errorHandler (app ctrl))"

definition after_chain ::
  "memory \<Rightarrow> ApplicationController \<Rightarrow> Handler \<Rightarrow> Handler option \<Rightarrow> HandleFunc" where
  "after_chain m0 ctrl0 h d m ctrl w r params =
     (let (chain, m1) = MiddlewareChain m0 ctrl0;
          (ctx1, err) = HandleFunc_load_body d r (NewContext r w params)
      in fst (HandleFunc_handler (cells m1 chain) (cells m chain) ctrl h err ctx1))"

text \<open>
  A sequence of \<^verbatim>\<open>GetVersion\<close> calls, one per name of the list, and a store of
  versions in which nothing has been allocated yet.
\<close>

fun GetVersions :: "string list \<Rightarrow> Application \<times> version_heap \<Rightarrow> Application \<times> version_heap" where
  "GetVersions [] st = st"
| "GetVersions (n # ns) (a, H) =
     (case GetVersion H a n of
        Some (p, a', H') \<Rightarrow> GetVersions ns (a', H')
      | None \<Rightarrow> (a, H))"

definition empty_heap :: version_heap where
  "empty_heap = \<lparr>objects = Map.empty, fresh = 0\<rparr>"

text \<open>
  A small configuration for the examples: Go's doubling of the capacity, one
  application-wide and one controller-specific middleware that leave a trace, and an
  action that leaves a trace and answers 200.
\<close>

definition example_memory :: memory where
  "example_memory = empty_memory (\<lambda>c n. 2 * c)"

definition M1 :: Middleware where
  "M1 = around (trace ''M1 pre'') (trace ''M1 post'')"

definition M2 :: Middleware where
  "M2 = around (trace ''M2 pre'') (trace ''M2 post'')"

definition example_config :: "memory \<times> ApplicationController" where
  "example_config =
     configure [AppUse M1, CtrlUse M2] (example_memory, NewController (New ''api'') ''res'')"

definition example_action :: Handler where
  "example_action ctx = RespondBytes 200 ''ok'' (trace ''action'' ctx)"


text \<open>
  A second configuration for the examples: three application-wide middleware, so that
  the application's slice has length three and capacity four, one controller-specific
  middleware, and the middleware of another controller of the same application.
\<close>

definition M3 :: Middleware where
  "M3 = around (trace ''M3 pre'') (trace ''M3 post'')"

definition shared_config :: "memory \<times> ApplicationController" where
  "shared_config =
     configure [AppUse M1, AppUse M1, AppUse M1, CtrlUse M2]
       (example_memory, NewController (New ''api'') ''res'')"

section \<open>Properties of the error handlers\<close>

text \<open>
  What the two handlers do to a context on which no response has been written. (On a
  context that already carries a response the write primitive refuses the second
  write.)
\<close>

lemma DefaultErrorHandler_BadRequest:
  assumes "Status c = 0"
  shows "DefaultErrorHandler c (BadRequestError m) =
     c\<lparr>Header := (Header c)(''Content-Type'' \<mapsto> [''application/json'']),
       Status := 400, Responses := Responses c @ [(400, m)]\<rparr>"
  using assms
  by (simp add: DefaultErrorHandler_def Header_Set_def RespondBytes_def ResponseWritten_def)

lemma DefaultErrorHandler_Other:
  assumes "Status c = 0"
  shows "DefaultErrorHandler c (OtherError m) =
     c\<lparr>Status := 500, Responses := Responses c @ [(500, m)]\<rparr>"
  using assms
  by (simp add: DefaultErrorHandler_def RespondBytes_def ResponseWritten_def)

lemma TerseErrorHandler_BadRequest:
  assumes "Status c = 0"
  shows "TerseErrorHandler c (BadRequestError m) =
     c\<lparr>Header := (Header c)(''Content-Type'' \<mapsto> [''application/json'']),
       Status := 400, Responses := Responses c @ [(400, m)]\<rparr>"
  using assms
  by (simp add: TerseErrorHandler_def Header_Set_def RespondBytes_def ResponseWritten_def)

lemma TerseErrorHandler_Other:
  assumes "Status c = 0"
  shows "TerseErrorHandler c (OtherError m) =
     c\<lparr>Status := 500, Responses := Responses c @ [(500, [])]\<rparr>"
  using assms
  by (simp add: TerseErrorHandler_def RespondBytes_def ResponseWritten_def)

text \<open>
  Claim C5. For every error and every context on which no response has been written
  yet, the verbose strategy answers a \<^verbatim>\<open>BadRequestError\<close> with status 400, the header
  \<^verbatim>\<open>Content-Type: application/json\<close> and the error's message as body, and any other
  error with status 500, the error's message as body and the headers untouched; the
  terse strategy sets the same status and the same headers as the verbose one for every
  error, writes the same body for a \<^verbatim>\<open>BadRequestError\<close>, and writes an empty body
  with its 500.
\<close>

theorem error_handlers_classify:
  assumes "ResponseStatus c = 0"
  shows "ResponseStatus (DefaultErrorHandler c (BadRequestError m)) = 400
   \<and> Header (DefaultErrorHandler c (BadRequestError m)) ''Content-Type'' = Some [''application/json'']
   \<and> Responses (DefaultErrorHandler c (BadRequestError m)) = Responses c @ [(400, Error (BadRequestError m))]
   \<and> ResponseStatus (DefaultErrorHandler c (OtherError m)) = 500
   \<and> Header (DefaultErrorHandler c (OtherError m)) = Header c
   \<and> Responses (DefaultErrorHandler c (OtherError m)) = Responses c @ [(500, Error (OtherError m))]
   \<and> ResponseStatus (TerseErrorHandler c e) = ResponseStatus (DefaultErrorHandler c e)
   \<and> Header (TerseErrorHandler c e) = Header (DefaultErrorHandler c e)
   \<and> TerseErrorHandler c (BadRequestError m) = DefaultErrorHandler c (BadRequestError m)
   \<and> Responses (TerseErrorHandler c (OtherError m)) = Responses c @ [(500, [])]"
proof -
  from assms have unset: "Status c = 0"
    by (simp add: ResponseStatus_def)
  show ?thesis
    by (cases e)
       (simp_all add: DefaultErrorHandler_BadRequest[OF unset] DefaultErrorHandler_Other[OF unset]
          TerseErrorHandler_BadRequest[OF unset] TerseErrorHandler_Other[OF unset]
          ResponseStatus_def)
qed

text \<open>
  On the context of a new request: a validation error "bad" gets 400, the JSON header
  and "bad" from both strategies; an error "boom" gets 500 with "boom" from the verbose
  strategy and 500 with an empty body from the terse one.
\<close>

theorem error_handlers_classify_witness:
  "ResponseStatus (NewContext \<lparr>ContentLength = 0\<rparr> \<lparr>WriteFailure = None\<rparr> []) = 0
   \<and> Responses (DefaultErrorHandler (NewContext \<lparr>ContentLength = 0\<rparr> \<lparr>WriteFailure = None\<rparr> [])
                  (BadRequestError ''bad'')) = [(400, ''bad'')]
   \<and> Header (DefaultErrorHandler (NewContext \<lparr>ContentLength = 0\<rparr> \<lparr>WriteFailure = None\<rparr> [])
                  (BadRequestError ''bad'')) ''Content-Type'' = Some [''application/json'']
   \<and> Responses (TerseErrorHandler (NewContext \<lparr>ContentLength = 0\<rparr> \<lparr>WriteFailure = None\<rparr> [])
                  (BadRequestError ''bad'')) = [(400, ''bad'')]
   \<and> Responses (DefaultErrorHandler (NewContext \<lparr>ContentLength = 0\<rparr> \<lparr>WriteFailure = None\<rparr> [])
                  (OtherError ''boom'')) = [(500, ''boom'')]
   \<and> Responses (TerseErrorHandler (NewContext \<lparr>ContentLength = 0\<rparr> \<lparr>WriteFailure = None\<rparr> [])
                  (OtherError ''boom'')) = [(500, [])]
   \<and> ResponseStatus (TerseErrorHandler (NewContext \<lparr>ContentLength = 0\<rparr> \<lparr>WriteFailure = None\<rparr> [])
                  (OtherError ''boom'')) = 500"
proof -
  let ?ctx = "NewContext \<lparr>ContentLength = 0\<rparr> \<lparr>WriteFailure = None\<rparr> []"
  have unset: "ResponseStatus ?ctx = 0"
    by (simp add: ResponseStatus_def NewContext_def)
  have fresh: "Responses ?ctx = []"
    by (simp add: NewContext_def)
  note bad = error_handlers_classify[OF unset, where m = "''bad''" and e = "BadRequestError ''bad''"]
  note boom = error_handlers_classify[OF unset, where m = "''boom''" and e = "OtherError ''boom''"]
  from bad have b1: "Responses (DefaultErrorHandler ?ctx (BadRequestError ''bad'')) = [(400, ''bad'')]"
    and b2: "Header (DefaultErrorHandler ?ctx (BadRequestError ''bad'')) ''Content-Type'' =
               Some [''application/json'']"
    and b3: "TerseErrorHandler ?ctx (BadRequestError ''bad'') = DefaultErrorHandler ?ctx (BadRequestError ''bad'')"
    by (simp_all add: fresh)
  from boom have o1: "Responses (DefaultErrorHandler ?ctx (OtherError ''boom'')) = [(500, ''boom'')]"
    and o2: "Responses (TerseErrorHandler ?ctx (OtherError ''boom'')) = [(500, [])]"
    and o3: "ResponseStatus (TerseErrorHandler ?ctx (OtherError ''boom'')) = 500"
    by (simp_all add: fresh)
  from unset b1 b2 b3 o1 o2 o3 show ?thesis
    by simp
qed

section \<open>Properties of the middleware slices\<close>

text \<open>
  Whatever the store holds, the slice \<^verbatim>\<open>append\<close> returns has the cells of its first
  argument followed by the appended elements.
\<close>

lemma cells_go_append:
  "cells (snd (go_append m s xs)) (fst (go_append m s xs)) = cells m s @ xs"
  by (auto simp: go_append_def cells_def Let_def)

lemma cells_MiddlewareChain:
  "cells (snd (MiddlewareChain m ctrl)) (fst (MiddlewareChain m ctrl)) =
     cells m (Application.middleware (app ctrl)) @ cells m (ApplicationController.middleware ctrl)"
  by (simp add: MiddlewareChain_def cells_go_append)

text \<open>
  What an \<^verbatim>\<open>append\<close> to one slice does to another slice, and to the first slice's
  own cells.
\<close>

lemma go_append_frame:
  assumes "slice_ok m s" "slice_ok m t" "cap s = 0 \<or> cap t = 0 \<or> ptr s \<noteq> ptr t"
  shows "cells (snd (go_append m s xs)) t = cells m t"
  using assms
  by (auto simp: go_append_def cells_def slice_ok_def Let_def)

lemma go_append_self:
  assumes "slice_ok m s"
  shows "cells (snd (go_append m s xs)) s = cells m s"
  using assms
  by (auto simp: go_append_def cells_def slice_ok_def Let_def)

lemma go_append_ok_new:
  assumes "slice_ok m s"
  shows "slice_ok (snd (go_append m s xs)) (fst (go_append m s xs))"
  using assms
  by (auto simp: go_append_def cells_def slice_ok_def Let_def)

lemma go_append_ok_other:
  assumes "slice_ok m s" "slice_ok m t" "cap s = 0 \<or> cap t = 0 \<or> ptr s \<noteq> ptr t"
  shows "slice_ok (snd (go_append m s xs)) t"
  using assms
  by (auto simp: go_append_def cells_def slice_ok_def Let_def)

lemma go_append_ok_self:
  assumes "slice_ok m s"
  shows "slice_ok (snd (go_append m s xs)) s"
  using assms
  by (auto simp: go_append_def cells_def slice_ok_def Let_def)

lemma go_append_apart:
  assumes "slice_ok m s" "slice_ok m t" "cap s = 0 \<or> cap t = 0 \<or> ptr s \<noteq> ptr t"
  shows "cap (fst (go_append m s xs)) = 0 \<or> cap t = 0 \<or> ptr (fst (go_append m s xs)) \<noteq> ptr t"
  using assms
  by (auto simp: go_append_def cells_def slice_ok_def Let_def)

text \<open>Every step of the configuration keeps the two slices apart.\<close>

lemma configure_step_ok:
  assumes "config_ok st"
  shows "config_ok (configure_step op st)"
proof -
  obtain m ctrl where st: "st = (m, ctrl)" by (cases st)
  let ?sa = "Application.middleware (app ctrl)"
  let ?sc = "ApplicationController.middleware ctrl"
  from assms st have ok: "slice_ok m ?sa" "slice_ok m ?sc"
    and apart: "cap ?sa = 0 \<or> cap ?sc = 0 \<or> ptr ?sa \<noteq> ptr ?sc"
    by (simp_all add: config_ok_def Let_def)
  from apart have apart': "cap ?sc = 0 \<or> cap ?sa = 0 \<or> ptr ?sc \<noteq> ptr ?sa" by auto
  show ?thesis
  proof (cases op)
    case (AppUse mw)
    with st ok apart show ?thesis
      using go_append_ok_new[of m ?sa "[mw]"] go_append_ok_other[of m ?sa ?sc "[mw]"]
        go_append_apart[of m ?sa ?sc "[mw]"]
      by (simp add: config_ok_def Let_def Application_Use_def case_prod_beta)
  next
    case (CtrlUse mw)
    with st ok apart' show ?thesis
      using go_append_ok_new[of m ?sc "[mw]"] go_append_ok_other[of m ?sc ?sa "[mw]"]
        go_append_apart[of m ?sc ?sa "[mw]"]
      by (auto simp add: config_ok_def Let_def ApplicationController_Use_def case_prod_beta)
  next
    case (AppSetErrorHandler handler)
    with st ok apart show ?thesis
      by (simp add: config_ok_def Let_def Application_SetErrorHandler_def)
  next
    case (CtrlSetErrorHandler handler)
    with st ok apart show ?thesis
      by (simp add: config_ok_def Let_def ApplicationController_SetErrorHandler_def)
  next
    case CallChain
    with st ok apart show ?thesis
      using go_append_ok_self[of m ?sa "cells m ?sc"] go_append_ok_other[of m ?sa ?sc "cells m ?sc"]
      by (simp add: config_ok_def Let_def MiddlewareChain_def case_prod_beta)
  next
    case (OtherChain xs)
    with st ok apart show ?thesis
      using go_append_ok_self[of m ?sa xs] go_append_ok_other[of m ?sa ?sc xs]
      by (simp add: config_ok_def Let_def case_prod_beta)
  qed
qed

text \<open>Every step adds what it registers at the end of its slice and nothing else.\<close>

lemma configure_step_app_cells:
  assumes "config_ok st"
  shows "app_cells (configure_step op st) = app_cells st @ app_uses [op]"
proof -
  obtain m ctrl where st: "st = (m, ctrl)" by (cases st)
  let ?sa = "Application.middleware (app ctrl)"
  let ?sc = "ApplicationController.middleware ctrl"
  from assms st have ok: "slice_ok m ?sa" "slice_ok m ?sc"
    and apart: "cap ?sa = 0 \<or> cap ?sc = 0 \<or> ptr ?sa \<noteq> ptr ?sc"
    by (simp_all add: config_ok_def Let_def)
  from apart have apart': "cap ?sc = 0 \<or> cap ?sa = 0 \<or> ptr ?sc \<noteq> ptr ?sa" by auto
  show ?thesis
  proof (cases op)
    case (AppUse mw)
    with st show ?thesis
      using cells_go_append[of m ?sa "[mw]"]
      by (simp add: app_cells_def Application_Use_def case_prod_beta)
  next
    case (CtrlUse mw)
    with st ok apart' show ?thesis
      using go_append_frame[of m ?sc ?sa "[mw]"]
      by (simp add: app_cells_def ApplicationController_Use_def case_prod_beta)
  next
    case CallChain
    with st ok show ?thesis
      using go_append_self[of m ?sa "cells m ?sc"]
      by (simp add: app_cells_def MiddlewareChain_def case_prod_beta)
  next
    case (OtherChain xs)
    with st ok show ?thesis
      using go_append_self[of m ?sa xs]
      by (simp add: app_cells_def case_prod_beta)
  qed (simp_all add: st app_cells_def Application_SetErrorHandler_def
         ApplicationController_SetErrorHandler_def)
qed

lemma configure_step_ctrl_cells:
  assumes "config_ok st"
  shows "ctrl_cells (configure_step op st) = ctrl_cells st @ ctrl_uses [op]"
proof -
  obtain m ctrl where st: "st = (m, ctrl)" by (cases st)
  let ?sa = "Application.middleware (app ctrl)"
  let ?sc = "ApplicationController.middleware ctrl"
  from assms st have ok: "slice_ok m ?sa" "slice_ok m ?sc"
    and apart: "cap ?sa = 0 \<or> cap ?sc = 0 \<or> ptr ?sa \<noteq> ptr ?sc"
    by (simp_all add: config_ok_def Let_def)
  show ?thesis
  proof (cases op)
    case (AppUse mw)
    with st ok apart show ?thesis
      using go_append_frame[of m ?sa ?sc "[mw]"]
      by (simp add: ctrl_cells_def Application_Use_def case_prod_beta)
  next
    case (CtrlUse mw)
    with st show ?thesis
      using cells_go_append[of m ?sc "[mw]"]
      by (simp add: ctrl_cells_def ApplicationController_Use_def case_prod_beta)
  next
    case CallChain
    with st ok apart show ?thesis
      using go_append_frame[of m ?sa ?sc "cells m ?sc"]
      by (simp add: ctrl_cells_def MiddlewareChain_def case_prod_beta)
  next
    case (OtherChain xs)
    with st ok apart show ?thesis
      using go_append_frame[of m ?sa ?sc xs]
      by (simp add: ctrl_cells_def case_prod_beta)
  qed (simp_all add: st ctrl_cells_def Application_SetErrorHandler_def
         ApplicationController_SetErrorHandler_def)
qed

lemma app_uses_append: "app_uses (xs @ ys) = app_uses xs @ app_uses ys"
  by (induction xs rule: app_uses.induct) simp_all

lemma ctrl_uses_append: "ctrl_uses (xs @ ys) = ctrl_uses xs @ ctrl_uses ys"
  by (induction xs rule: ctrl_uses.induct) simp_all

lemma configure_cells:
  assumes "config_ok st"
  shows "config_ok (configure ops st)
       \<and> app_cells (configure ops st) = app_cells st @ app_uses ops
       \<and> ctrl_cells (configure ops st) = ctrl_cells st @ ctrl_uses ops"
  using assms
proof (induction ops arbitrary: st)
  case Nil
  then show ?case by simp
next
  case (Cons op ops)
  from Cons.prems have ok: "config_ok (configure_step op st)"
    by (rule configure_step_ok)
  have a: "app_uses (op # ops) = app_uses [op] @ app_uses ops"
    using app_uses_append[of "[op]" ops] by simp
  have c: "ctrl_uses (op # ops) = ctrl_uses [op] @ ctrl_uses ops"
    using ctrl_uses_append[of "[op]" ops] by simp
  from Cons.IH[OF ok] configure_step_app_cells[OF Cons.prems, of op]
    configure_step_ctrl_cells[OF Cons.prems, of op]
  show ?case
    by (simp only: configure.simps a c append_assoc)
qed

lemma config_ok_new: "config_ok (m0, NewController (New nm) res)"
  by (simp add: config_ok_def slice_ok_def NewController_def New_def nil_slice_def)

text \<open>
  Claim C6. For every controller, the chain \<^verbatim>\<open>MiddlewareChain\<close> returns holds the
  application's middleware followed by the controller's own, whatever the store; and
  for a controller made by \<^verbatim>\<open>NewController\<close> on an application made by \<^verbatim>\<open>New\<close>,
  after any sequence of configuration calls (in any store, whatever capacities the
  runtime reserves), these are the middleware the application's \<^verbatim>\<open>Use\<close> calls
  registered, in the order of the calls, followed by the middleware the controller's
  \<^verbatim>\<open>Use\<close> calls registered, in the order of the calls.
\<close>

theorem MiddlewareChain_order:
  "cells (snd (MiddlewareChain m' ctrl')) (fst (MiddlewareChain m' ctrl')) =
     cells m' (Application.middleware (app ctrl')) @
     cells m' (ApplicationController.middleware ctrl')
   \<and> (let (m, ctrl) = configure ops (m0, NewController (New nm) res)
      in cells (snd (MiddlewareChain m ctrl)) (fst (MiddlewareChain m ctrl)))
     = app_uses ops @ ctrl_uses ops"
proof -
  obtain m ctrl where st: "configure ops (m0, NewController (New nm) res) = (m, ctrl)"
    by (cases "configure ops (m0, NewController (New nm) res)")
  from configure_cells[OF config_ok_new, of ops m0 nm res] st
  have "cells m (Application.middleware (app ctrl)) = app_uses ops"
    and "cells m (ApplicationController.middleware ctrl) = ctrl_uses ops"
    by (simp_all add: app_cells_def ctrl_cells_def cells_def NewController_def New_def nil_slice_def)
  with st show ?thesis
    by (simp add: cells_MiddlewareChain)
qed

section \<open>Properties of the composed handler\<close>

lemma wrap_loop_foldr:
  "wrap_loop i chain mw = foldr (\<lambda>m h. m h) (take (length chain - i) chain) mw"
proof (induction i chain mw rule: wrap_loop.induct)
  case (1 i chain mw)
  show ?case
  proof (cases "i < length chain")
    case True
    then have k: "length chain - i = Suc (length chain - Suc i)"
      by simp
    have "take (Suc (length chain - Suc i)) chain =
            take (length chain - Suc i) chain @ [chain ! (length chain - Suc i)]"
      using True by (intro take_Suc_conv_app_nth) simp
    then have "take (length chain - i) chain =
            take (length chain - Suc i) chain @ [chain ! (length chain - i - 1)]"
      using k by simp
    with 1 True show ?thesis by (simp del: wrap_loop.simps add: wrap_loop.simps[of i])
  next
    case False
    then show ?thesis by simp
  qed
qed

lemma wrap_loop_0: "wrap_loop 0 chain mw = foldr (\<lambda>m h. m h) chain mw"
  by (simp add: wrap_loop_foldr del: wrap_loop.simps)

lemma foldr_around:
  "foldr (\<lambda>m h. m h) (map (\<lambda>(pre, post). around pre post) pps) t ctx =
     (let (ctx', err) = t (fold (\<lambda>(pre, post). pre) pps ctx)
      in (foldr (\<lambda>(pre, post). post) pps ctx', err))"
  by (induction pps arbitrary: ctx) (auto simp: around_def split: prod.splits)

lemma HandleFunc_call:
  "fst (HandleFunc m0 ctrl0 nm h d) m ctrl w r params =
     (let (ctx1, err) = HandleFunc_load_body d r (NewContext r w params);
          built = cells m0 (Application.middleware (app ctrl0)) @
                  cells m0 (ApplicationController.middleware ctrl0);
          now = cells m (fst (MiddlewareChain m0 ctrl0))
      in HandleFunc_ensure_response ctrl (fst (HandleFunc_handler built now ctrl h err ctx1)))"
  by (simp add: HandleFunc_def case_prod_beta Let_def cells_MiddlewareChain)

lemma example_cells:
  "cells (fst example_config) (Application.middleware (app (snd example_config))) = [M1]"
  "cells (fst example_config) (ApplicationController.middleware (snd example_config)) = [M2]"
  by (simp_all add: example_config_def example_memory_def empty_memory_def NewController_def New_def
      Application_Use_def ApplicationController_Use_def go_append_def nil_slice_def cells_def Let_def)

text \<open>
  Claim C1. Let the effective chain of an action be \<open>M1, ..., Mn\<close>: the application's
  middleware followed by the controller's, as \<^verbatim>\<open>HandleFunc\<close> finds them. For a request
  whose body is absent or decodes without error, the function \<^verbatim>\<open>HandleFunc\<close> returns
  invokes the right fold of the chain over the terminal handler, that is
  \<open>M1 (M2 (... (Mn terminal)))\<close>: the last middleware wraps the terminal handler first and
  the first-registered one is outermost. So when each \<open>Mk\<close> runs a pre-logic, then the
  handler it wraps, then a post-logic, the invocation runs the pre-logics of
  \<open>M1, ..., Mn\<close> in this order, then the terminal handler, then the post-logics of
  \<open>Mn, ..., M1\<close> in this order.
\<close>

theorem HandleFunc_wrap_order:
  assumes "HandleFunc_load_body d r (NewContext r w params) = (ctx1, None)"
  shows "fst (HandleFunc m0 ctrl0 nm h d) m ctrl w r params =
           HandleFunc_ensure_response ctrl
             (fst (foldr (\<lambda>mw inner. mw inner)
                     (cells m0 (Application.middleware (app ctrl0)) @
                      cells m0 (ApplicationController.middleware ctrl0))
                     (HandleFunc_action ctrl h) ctx1))
       \<and> (\<forall>pps. cells m0 (Application.middleware (app ctrl0)) @
                 cells m0 (ApplicationController.middleware ctrl0) =
                 map (\<lambda>(pre, post). around pre post) pps \<longrightarrow>
            fst (HandleFunc m0 ctrl0 nm h d) m ctrl w r params =
              HandleFunc_ensure_response ctrl
                (foldr (\<lambda>(pre, post). post) pps
                   (fst (HandleFunc_action ctrl h (fold (\<lambda>(pre, post). pre) pps ctx1)))))"
  using assms
  by (simp add: HandleFunc_call HandleFunc_handler_def wrap_loop_0 foldr_around case_prod_beta
        del: wrap_loop.simps)

text \<open>
  The example configuration, a request without a body: the trace reads the two
  pre-logics in registration order, the action, and the two post-logics in reverse.
\<close>

theorem HandleFunc_wrap_order_witness:
  "HandleFunc_load_body None \<lparr>ContentLength = 0\<rparr> (NewContext \<lparr>ContentLength = 0\<rparr> \<lparr>WriteFailure = None\<rparr> [])
     = (NewContext \<lparr>ContentLength = 0\<rparr> \<lparr>WriteFailure = None\<rparr> [], None)
   \<and> Header (fst (HandleFunc (fst example_config) (snd example_config) ''show'' example_action None)
               (fst example_config) (snd example_config)
               \<lparr>WriteFailure = None\<rparr> \<lparr>ContentLength = 0\<rparr> []) ''Trace''
     = Some [''M1 pre'', ''M2 pre'', ''action'', ''M2 post'', ''M1 post'']
   \<and> Responses (fst (HandleFunc (fst example_config) (snd example_config) ''show'' example_action None)
               (fst example_config) (snd example_config)
               \<lparr>WriteFailure = None\<rparr> \<lparr>ContentLength = 0\<rparr> [])
     = [(200, ''ok'')]"
proof -
  let ?r = "\<lparr>ContentLength = 0\<rparr>" and ?w = "\<lparr>WriteFailure = None\<rparr>"
  let ?pps = "[(trace ''M1 pre'', trace ''M1 post''), (trace ''M2 pre'', trace ''M2 post'')]"
  have load: "HandleFunc_load_body None ?r (NewContext ?r ?w []) = (NewContext ?r ?w [], None)"
    by (simp add: HandleFunc_load_body_def)
  have chain: "cells (fst example_config) (Application.middleware (app (snd example_config))) @
               cells (fst example_config) (ApplicationController.middleware (snd example_config)) =
               map (\<lambda>(pre, post). around pre post) ?pps"
    by (simp add: example_cells M1_def M2_def)
  from HandleFunc_wrap_order[OF load, of "fst example_config" "snd example_config" "''show''"
      example_action "fst example_config" "snd example_config"] chain
  have "fst (HandleFunc (fst example_config) (snd example_config) ''show'' example_action None)
               (fst example_config) (snd example_config) ?w ?r [] =
        HandleFunc_ensure_response (snd example_config)
          (foldr (\<lambda>(pre, post). post) ?pps
             (fst (HandleFunc_action (snd example_config) example_action
                (fold (\<lambda>(pre, post). pre) ?pps (NewContext ?r ?w [])))))"
    by blast
  then show ?thesis
    using load
    by (simp add: HandleFunc_ensure_response_def HandleFunc_action_def example_action_def
        RespondBytes_def trace_def NewContext_def ResponseWritten_def ResponseStatus_def)
qed

section \<open>Properties of the error routing\<close>

text \<open>
  Claim C4. In the terminal handler of the composed chain, when no response has been
  written and the action returns an error, the error goes, with the context as the
  action left it, to the controller's error handler if one is set, else to the
  application's if one is set; if neither is set the context stays as the action left it
  (nothing is written), and the terminal handler itself returns no error.
\<close>

theorem action_error_routing:
  assumes "\<not> ResponseWritten ctx" and "h ctx = (ctx', Some err)"
  shows "HandleFunc_action ctrl h ctx =
           ((case ApplicationController.errorHandler ctrl of
               Some handler \<Rightarrow> handler ctx' err
             | None \<Rightarrow> (case Application.errorHandler (app ctrl) of
                          Some handler \<Rightarrow> handler ctx' err
                        | None \<Rightarrow> ctx')), None)"
  using assms by (simp add: HandleFunc_action_def HandleError_def)

text \<open>
  An action that fails with "boom" on a fresh context: a controller with the terse
  handler answers with the terse response although its application has the verbose one;
  a controller without a handler of its own answers with the application's; and when the
  application's handler was removed as well, nothing is written.
\<close>

theorem action_error_routing_witness:
  "\<not> ResponseWritten (NewContext \<lparr>ContentLength = 0\<rparr> \<lparr>WriteFailure = None\<rparr> [])
   \<and> (\<lambda>c. (c, Some (OtherError ''boom''))) (NewContext \<lparr>ContentLength = 0\<rparr> \<lparr>WriteFailure = None\<rparr> [])
       = (NewContext \<lparr>ContentLength = 0\<rparr> \<lparr>WriteFailure = None\<rparr> [], Some (OtherError ''boom''))
   \<and> Responses (fst (HandleFunc_action
          (ApplicationController_SetErrorHandler (NewController (New ''api'') ''res'') (Some TerseErrorHandler))
          (\<lambda>c. (c, Some (OtherError ''boom'')))
          (NewContext \<lparr>ContentLength = 0\<rparr> \<lparr>WriteFailure = None\<rparr> []))) = [(500, [])]
   \<and> Responses (fst (HandleFunc_action
          (NewController (New ''api'') ''res'')
          (\<lambda>c. (c, Some (OtherError ''boom'')))
          (NewContext \<lparr>ContentLength = 0\<rparr> \<lparr>WriteFailure = None\<rparr> []))) = [(500, ''boom'')]
   \<and> Responses (fst (HandleFunc_action
          (NewController (Application_SetErrorHandler (New ''api'') None) ''res'')
          (\<lambda>c. (c, Some (OtherError ''boom'')))
          (NewContext \<lparr>ContentLength = 0\<rparr> \<lparr>WriteFailure = None\<rparr> []))) = []"
proof -
  let ?ctx = "NewContext \<lparr>ContentLength = 0\<rparr> \<lparr>WriteFailure = None\<rparr> []"
  let ?h = "\<lambda>c::Context. (c, Some (OtherError ''boom''))"
  have unwritten: "\<not> ResponseWritten ?ctx"
    by (simp add: ResponseWritten_def NewContext_def)
  have fails: "?h ?ctx = (?ctx, Some (OtherError ''boom''))"
    by simp
  note routed = action_error_routing[where h = ?h and ctx = ?ctx and ctx' = ?ctx
      and err = "OtherError ''boom''", OF unwritten fails]
  show ?thesis
    using unwritten
      routed[of "ApplicationController_SetErrorHandler (NewController (New ''api'') ''res'') (Some TerseErrorHandler)"]
      routed[of "NewController (New ''api'') ''res''"]
      routed[of "NewController (Application_SetErrorHandler (New ''api'') None) ''res''"]
    by (simp add: ApplicationController_SetErrorHandler_def Application_SetErrorHandler_def
        NewController_def New_def TerseErrorHandler_Other DefaultErrorHandler_Other NewContext_def)
qed

section \<open>Properties of the dispatch of a malformed body\<close>




text \<open>
  The chain slice shares its array with the application's slice. With three
  application-wide middleware (capacity four) and one controller-specific middleware,
  the chain is built in place behind the application's three cells, and the next
  controller that asks for its own chain overwrites the fourth cell.
\<close>

lemma chain_cells_overwritten:
  "(let (chain, m) = MiddlewareChain (fst shared_config) (snd shared_config);
        (m', ctrl) = configure_step (OtherChain [M3]) (m, snd shared_config)
    in (cells m chain, cells m' chain)) = ([M1, M1, M1, M2], [M1, M1, M1, M3])"
  by (simp add: shared_config_def example_memory_def empty_memory_def NewController_def New_def
      Application_Use_def ApplicationController_Use_def MiddlewareChain_def go_append_def
      nil_slice_def cells_def Let_def)




section \<open>Properties of the unhandled-request backstop\<close>

lemma HandleFunc_after_chain:
  "fst (HandleFunc m0 ctrl0 nm h d) m ctrl w r params =
     HandleFunc_ensure_response ctrl (after_chain m0 ctrl0 h d m ctrl w r params)"
  by (simp add: HandleFunc_def after_chain_def case_prod_beta Let_def)

lemma HandleError_selected:
  "HandleError ctrl ctx err =
     (case selected_handler ctrl of Some handler \<Rightarrow> handler ctx err | None \<Rightarrow> ctx)"
  by (simp add: HandleError_def selected_handler_def split: option.splits)

text \<open>
  An application whose error handler was set to \<^verbatim>\<open>nil\<close>, a controller without a
  handler of its own, and an action that neither writes nor fails: the dispatcher
  returns with no response written and the status still unset.
\<close>

theorem unhandled_request_counterexample:
  "Responses (fst (HandleFunc example_memory
                     (NewController (Application_SetErrorHandler (New ''api'') None) ''res'')
                     ''show'' (\<lambda>c. (c, None)) None)
                example_memory
                (NewController (Application_SetErrorHandler (New ''api'') None) ''res'')
                \<lparr>WriteFailure = None\<rparr> \<lparr>ContentLength = 0\<rparr> []) = []
   \<and> ResponseStatus (fst (HandleFunc example_memory
                     (NewController (Application_SetErrorHandler (New ''api'') None) ''res'')
                     ''show'' (\<lambda>c. (c, None)) None)
                example_memory
                (NewController (Application_SetErrorHandler (New ''api'') None) ''res'')
                \<lparr>WriteFailure = None\<rparr> \<lparr>ContentLength = 0\<rparr> []) = 0"
  by (simp add: HandleFunc_call HandleFunc_load_body_def HandleFunc_handler_def wrap_loop_0
      HandleFunc_action_def HandleFunc_ensure_response_def HandleError_def
      ResponseStatus_def ResponseWritten_def NewContext_def
      Application_SetErrorHandler_def
      MiddlewareChain_def go_append_def cells_def NewController_def New_def nil_slice_def
      example_memory_def empty_memory_def Let_def
      del: wrap_loop.simps)

text \<open>
  Claim C3, amended. For every dispatched request, when the chain has returned and the
  status of the context is still unset, \<^verbatim>\<open>HandleError\<close> is called with the error
  "unhandled request" (otherwise the context is left as it is), and \<^verbatim>\<open>HandleError\<close>
  calls the controller's error handler if one is set, else the application's if one is
  set. If the handler so selected is one of the two built-in strategies and nothing was
  written before, exactly one response is produced, with status 500; if neither handler
  is set, nothing is written.
\<close>

theorem unhandled_request_backstop:
  "fst (HandleFunc m0 ctrl0 nm h d) m ctrl w r params =
     (let ctx = after_chain m0 ctrl0 h d m ctrl w r params
      in if ResponseStatus ctx = 0
         then HandleError ctrl ctx (OtherError ''unhandled request'')
         else ctx)
   \<and> HandleError ctrl ctx err =
       (case ApplicationController.errorHandler ctrl of
          Some handler \<Rightarrow> handler ctx err
        | None \<Rightarrow> (case Application.errorHandler (app ctrl) of
                     Some handler \<Rightarrow> handler ctx err
                   | None \<Rightarrow> ctx))
   \<and> (ResponseStatus ctx = 0 \<and> Responses ctx = [] \<and> selected_handler ctrl = Some DefaultErrorHandler \<longrightarrow>
        Responses (HandleFunc_ensure_response ctrl ctx) = [(500, ''unhandled request'')]
        \<and> ResponseStatus (HandleFunc_ensure_response ctrl ctx) = 500)
   \<and> (ResponseStatus ctx = 0 \<and> Responses ctx = [] \<and> selected_handler ctrl = Some TerseErrorHandler \<longrightarrow>
        Responses (HandleFunc_ensure_response ctrl ctx) = [(500, [])]
        \<and> ResponseStatus (HandleFunc_ensure_response ctrl ctx) = 500)
   \<and> (ResponseStatus ctx = 0 \<and> selected_handler ctrl = None \<longrightarrow>
        HandleFunc_ensure_response ctrl ctx = ctx)"
proof -
  have call: "fst (HandleFunc m0 ctrl0 nm h d) m ctrl w r params =
     (let ctx = after_chain m0 ctrl0 h d m ctrl w r params
      in if ResponseStatus ctx = 0
         then HandleError ctrl ctx (OtherError ''unhandled request'')
         else ctx)"
    by (simp add: HandleFunc_after_chain HandleFunc_ensure_response_def Errorf_def Let_def)
  have route: "HandleError ctrl ctx err =
       (case ApplicationController.errorHandler ctrl of
          Some handler \<Rightarrow> handler ctx err
        | None \<Rightarrow> (case Application.errorHandler (app ctrl) of
                     Some handler \<Rightarrow> handler ctx err
                   | None \<Rightarrow> ctx))"
    by (simp add: HandleError_def)
  have verbose: "ResponseStatus ctx = 0 \<and> Responses ctx = [] \<and>
        selected_handler ctrl = Some DefaultErrorHandler \<longrightarrow>
        Responses (HandleFunc_ensure_response ctrl ctx) = [(500, ''unhandled request'')]
        \<and> ResponseStatus (HandleFunc_ensure_response ctrl ctx) = 500"
    by (simp add: HandleFunc_ensure_response_def HandleError_selected Errorf_def
        DefaultErrorHandler_Other ResponseStatus_def)
  have terse: "ResponseStatus ctx = 0 \<and> Responses ctx = [] \<and>
        selected_handler ctrl = Some TerseErrorHandler \<longrightarrow>
        Responses (HandleFunc_ensure_response ctrl ctx) = [(500, [])]
        \<and> ResponseStatus (HandleFunc_ensure_response ctrl ctx) = 500"
    by (simp add: HandleFunc_ensure_response_def HandleError_selected Errorf_def
        TerseErrorHandler_Other ResponseStatus_def)
  have none: "ResponseStatus ctx = 0 \<and> selected_handler ctrl = None \<longrightarrow>
        HandleFunc_ensure_response ctrl ctx = ctx"
    by (simp add: HandleFunc_ensure_response_def HandleError_selected)
  from call route verbose terse none show ?thesis
    by blast
qed

text \<open>
  The example configuration with an action that neither writes nor fails: the
  application's verbose handler answers, once. On a fresh context, a controller with the
  terse handler answers with an empty body, and a controller without any handler writes
  nothing.
\<close>

theorem unhandled_request_backstop_witness:
  "ResponseStatus (NewContext \<lparr>ContentLength = 0\<rparr> \<lparr>WriteFailure = None\<rparr> []) = 0
   \<and> Responses (NewContext \<lparr>ContentLength = 0\<rparr> \<lparr>WriteFailure = None\<rparr> []) = []
   \<and> selected_handler (snd example_config) = Some DefaultErrorHandler
   \<and> Responses (fst (HandleFunc (fst example_config) (snd example_config) ''show'' (\<lambda>c. (c, None)) None)
                  (fst example_config) (snd example_config)
                  \<lparr>WriteFailure = None\<rparr> \<lparr>ContentLength = 0\<rparr> [])
       = [(500, ''unhandled request'')]
   \<and> selected_handler (ApplicationController_SetErrorHandler (snd example_config) (Some TerseErrorHandler))
       = Some TerseErrorHandler
   \<and> Responses (HandleFunc_ensure_response
                  (ApplicationController_SetErrorHandler (snd example_config) (Some TerseErrorHandler))
                  (NewContext \<lparr>ContentLength = 0\<rparr> \<lparr>WriteFailure = None\<rparr> []))
       = [(500, [])]
   \<and> selected_handler (NewController (Application_SetErrorHandler (New ''api'') None) ''res'') = None
   \<and> Responses (HandleFunc_ensure_response
                  (NewController (Application_SetErrorHandler (New ''api'') None) ''res'')
                  (NewContext \<lparr>ContentLength = 0\<rparr> \<lparr>WriteFailure = None\<rparr> []))
       = []"
proof -
  let ?r = "\<lparr>ContentLength = 0\<rparr>" and ?w = "\<lparr>WriteFailure = None\<rparr>"
  let ?pps = "[(trace ''M1 pre'', trace ''M1 post''), (trace ''M2 pre'', trace ''M2 post'')]"
  let ?terse = "ApplicationController_SetErrorHandler (snd example_config) (Some TerseErrorHandler)"
  let ?bare = "NewController (Application_SetErrorHandler (New ''api'') None) ''res''"
  have sel: "selected_handler (snd example_config) = Some DefaultErrorHandler"
    by (simp add: selected_handler_def example_config_def NewController_def New_def
        Application_Use_def ApplicationController_Use_def case_prod_beta)
  have sel_terse: "selected_handler ?terse = Some TerseErrorHandler"
    by (simp add: selected_handler_def ApplicationController_SetErrorHandler_def)
  have sel_none: "selected_handler ?bare = None"
    by (simp add: selected_handler_def NewController_def Application_SetErrorHandler_def New_def)
  have fresh: "ResponseStatus (NewContext ?r ?w []) = 0" "Responses (NewContext ?r ?w []) = []"
    by (simp_all add: NewContext_def ResponseStatus_def)
  have after: "after_chain (fst example_config) (snd example_config) (\<lambda>c. (c, None)) None
                 (fst example_config) (snd example_config) ?w ?r [] =
               foldr (\<lambda>(pre, post). post) ?pps (fold (\<lambda>(pre, post). pre) ?pps (NewContext ?r ?w []))"
    using example_cells
    by (simp add: after_chain_def case_prod_beta Let_def cells_MiddlewareChain
        HandleFunc_load_body_def HandleFunc_handler_def wrap_loop_0 M1_def M2_def around_def
        HandleFunc_action_def ResponseWritten_def trace_def NewContext_def
        del: wrap_loop.simps)
  let ?ctx = "foldr (\<lambda>(pre, post). post) ?pps (fold (\<lambda>(pre, post). pre) ?pps (NewContext ?r ?w []))"
  have unset: "ResponseStatus ?ctx = 0" "Responses ?ctx = []"
    by (simp_all add: trace_def NewContext_def ResponseStatus_def)
  note inst = unhandled_request_backstop[of "fst example_config" "snd example_config" "''show''"
      "\<lambda>c. (c, None)" None "fst example_config" "snd example_config" ?w ?r "[]" ?ctx]
  from inst unset sel
  have one: "Responses (HandleFunc_ensure_response (snd example_config) ?ctx) = [(500, ''unhandled request'')]"
    by blast
  from inst have "fst (HandleFunc (fst example_config) (snd example_config) ''show'' (\<lambda>c. (c, None)) None)
                  (fst example_config) (snd example_config) ?w ?r [] =
                  HandleFunc_ensure_response (snd example_config) ?ctx"
    by (simp add: after HandleFunc_ensure_response_def Errorf_def Let_def)
  with one have verbose: "Responses (fst (HandleFunc (fst example_config) (snd example_config) ''show''
                  (\<lambda>c. (c, None)) None) (fst example_config) (snd example_config) ?w ?r [])
       = [(500, ''unhandled request'')]"
    by simp
  from unhandled_request_backstop[where ctrl = ?terse and ctx = "NewContext ?r ?w []"] fresh sel_terse
  have terse: "Responses (HandleFunc_ensure_response ?terse (NewContext ?r ?w [])) = [(500, [])]"
    by blast
  from unhandled_request_backstop[where ctrl = ?bare and ctx = "NewContext ?r ?w []"] fresh sel_none
  have "HandleFunc_ensure_response ?bare (NewContext ?r ?w []) = NewContext ?r ?w []"
    by blast
  with fresh have none: "Responses (HandleFunc_ensure_response ?bare (NewContext ?r ?w [])) = []"
    by simp
  from fresh sel verbose sel_terse terse sel_none none show ?thesis
    by blast
qed

section \<open>Properties of a new application\<close>

lemma configure_step_keeps_handlers:
  assumes "\<not> sets_error_handler op"
  shows "ApplicationController.errorHandler (snd (configure_step op st)) =
           ApplicationController.errorHandler (snd st)
       \<and> Application.errorHandler (app (snd (configure_step op st))) =
           Application.errorHandler (app (snd st))"
  using assms
  by (cases op; cases st)
     (simp_all add: Application_Use_def ApplicationController_Use_def case_prod_beta)

lemma configure_keeps_handlers:
  assumes "\<forall>op \<in> set ops. \<not> sets_error_handler op"
  shows "ApplicationController.errorHandler (snd (configure ops st)) =
           ApplicationController.errorHandler (snd st)
       \<and> Application.errorHandler (app (snd (configure ops st))) =
           Application.errorHandler (app (snd st))"
  using assms
proof (induction ops arbitrary: st)
  case Nil
  then show ?case by simp
next
  case (Cons op ops)
  then show ?case
    using configure_step_keeps_handlers[of op st] by simp
qed

text \<open>
  Claim C10. \<^verbatim>\<open>New(name)\<close> returns an application whose \<^verbatim>\<open>Name()\<close> is \<open>name\<close> and
  whose error handler is \<^verbatim>\<open>DefaultErrorHandler\<close>. So for a controller of it, after any
  configuration calls among which there is no \<^verbatim>\<open>SetErrorHandler\<close>, \<^verbatim>\<open>HandleError\<close>
  is \<^verbatim>\<open>DefaultErrorHandler\<close>, which on a context with no response written writes one
  (400 or 500, with the error's message); an action's error, when no response was
  written before the action ran nor by the action, and the unhandled-request backstop
  both get their response from it.
\<close>

theorem New_installs_DefaultErrorHandler:
  assumes "\<forall>op \<in> set ops. \<not> sets_error_handler op"
    and "ctrl = snd (configure ops (m0, NewController (New nm) res))"
  shows "Name (New nm) = nm
       \<and> Application_ErrorHandler (New nm) = Some DefaultErrorHandler
       \<and> HandleError ctrl ctx err = DefaultErrorHandler ctx err
       \<and> (ResponseStatus ctx = 0 \<longrightarrow>
            Responses (HandleError ctrl ctx err) =
              Responses ctx @ [(case err of BadRequestError _ \<Rightarrow> 400 | OtherError _ \<Rightarrow> 500, Error err)])
       \<and> (\<not> ResponseWritten ctx \<and> h ctx = (ctx', Some err) \<longrightarrow>
            HandleFunc_action ctrl h ctx = (DefaultErrorHandler ctx' err, None))
       \<and> (\<not> ResponseWritten ctx \<and> h ctx = (ctx', Some err) \<and> ResponseStatus ctx' = 0 \<longrightarrow>
            Responses (fst (HandleFunc_action ctrl h ctx)) =
              Responses ctx' @ [(case err of BadRequestError _ \<Rightarrow> 400 | OtherError _ \<Rightarrow> 500, Error err)])
       \<and> (ResponseStatus ctx = 0 \<longrightarrow>
            HandleFunc_ensure_response ctrl ctx =
              DefaultErrorHandler ctx (OtherError ''unhandled request'')
            \<and> Responses (HandleFunc_ensure_response ctrl ctx) =
                Responses ctx @ [(500, ''unhandled request'')])"
proof -
  from configure_keeps_handlers[OF assms(1), of "(m0, NewController (New nm) res)"] assms(2)
  have eh: "ApplicationController.errorHandler ctrl = None"
    "Application.errorHandler (app ctrl) = Some DefaultErrorHandler"
    by (simp_all add: NewController_def New_def)
  then have route: "\<And>c e. HandleError ctrl c e = DefaultErrorHandler c e"
    by (simp add: HandleError_def)
  have resp: "Responses (DefaultErrorHandler c e) =
      Responses c @ [(case e of BadRequestError _ \<Rightarrow> 400 | OtherError _ \<Rightarrow> 500, Error e)]"
    if "Status c = 0" for c e
    using that
    by (cases e) (simp_all add: DefaultErrorHandler_BadRequest DefaultErrorHandler_Other)
  have names: "Name (New nm) = nm" "Application_ErrorHandler (New nm) = Some DefaultErrorHandler"
    by (simp_all add: Name_def Application_ErrorHandler_def New_def)
  have written: "ResponseStatus ctx = 0 \<longrightarrow>
            Responses (HandleError ctrl ctx err) =
              Responses ctx @ [(case err of BadRequestError _ \<Rightarrow> 400 | OtherError _ \<Rightarrow> 500, Error err)]"
    by (simp add: route resp ResponseStatus_def)
  have action: "\<not> ResponseWritten ctx \<and> h ctx = (ctx', Some err) \<longrightarrow>
            HandleFunc_action ctrl h ctx = (DefaultErrorHandler ctx' err, None)"
    by (simp add: HandleFunc_action_def route)
  have action_written: "\<not> ResponseWritten ctx \<and> h ctx = (ctx', Some err) \<and> ResponseStatus ctx' = 0 \<longrightarrow>
            Responses (fst (HandleFunc_action ctrl h ctx)) =
              Responses ctx' @ [(case err of BadRequestError _ \<Rightarrow> 400 | OtherError _ \<Rightarrow> 500, Error err)]"
    by (simp add: HandleFunc_action_def route resp ResponseStatus_def)
  have backstop: "ResponseStatus ctx = 0 \<longrightarrow>
            HandleFunc_ensure_response ctrl ctx =
              DefaultErrorHandler ctx (OtherError ''unhandled request'')
            \<and> Responses (HandleFunc_ensure_response ctrl ctx) =
                Responses ctx @ [(500, ''unhandled request'')]"
    by (simp add: HandleFunc_ensure_response_def Errorf_def route resp ResponseStatus_def)
  from names route[of ctx err] written action action_written backstop show ?thesis
    by blast
qed

text \<open>
  The example configuration (two \<^verbatim>\<open>Use\<close> calls, no \<^verbatim>\<open>SetErrorHandler\<close>) and the
  context of a new request: a validation error is answered with 400, an action failing
  with "boom" with 500 and "boom", and the untouched context with 500 and "unhandled
  request".
\<close>

theorem New_installs_DefaultErrorHandler_witness:
  "\<not> sets_error_handler (AppUse M1) \<and> \<not> sets_error_handler (CtrlUse M2)
   \<and> Name (New ''api'') = ''api''
   \<and> ResponseStatus (NewContext \<lparr>ContentLength = 0\<rparr> \<lparr>WriteFailure = None\<rparr> []) = 0
   \<and> Responses (HandleError (snd example_config)
                  (NewContext \<lparr>ContentLength = 0\<rparr> \<lparr>WriteFailure = None\<rparr> []) (BadRequestError ''bad''))
       = [(400, ''bad'')]
   \<and> \<not> ResponseWritten (NewContext \<lparr>ContentLength = 0\<rparr> \<lparr>WriteFailure = None\<rparr> [])
   \<and> Responses (fst (HandleFunc_action (snd example_config) (\<lambda>c. (c, Some (OtherError ''boom'')))
                  (NewContext \<lparr>ContentLength = 0\<rparr> \<lparr>WriteFailure = None\<rparr> [])))
       = [(500, ''boom'')]
   \<and> Responses (HandleFunc_ensure_response (snd example_config)
                  (NewContext \<lparr>ContentLength = 0\<rparr> \<lparr>WriteFailure = None\<rparr> []))
       = [(500, ''unhandled request'')]"
proof -
  let ?ctx = "NewContext \<lparr>ContentLength = 0\<rparr> \<lparr>WriteFailure = None\<rparr> []"
  let ?h = "\<lambda>c::Context. (c, Some (OtherError ''boom''))"
  have uses: "\<forall>op \<in> set [AppUse M1, CtrlUse M2]. \<not> sets_error_handler op"
    by simp
  have cfg: "snd example_config =
      snd (configure [AppUse M1, CtrlUse M2] (example_memory, NewController (New ''api'') ''res''))"
    by (simp only: example_config_def)
  have unwritten: "\<not> ResponseWritten ?ctx" "ResponseStatus ?ctx = 0" "Responses ?ctx = []"
    by (simp_all add: ResponseWritten_def ResponseStatus_def NewContext_def)
  have fails: "?h ?ctx = (?ctx, Some (OtherError ''boom''))"
    by simp
  note inst = New_installs_DefaultErrorHandler[OF uses cfg,
      where ctx = ?ctx and ctx' = ?ctx and h = ?h]
  from inst[where err = "BadRequestError ''bad''"]
  have "ResponseStatus ?ctx = 0 \<longrightarrow>
          Responses (HandleError (snd example_config) ?ctx (BadRequestError ''bad'')) =
            Responses ?ctx @ [(case BadRequestError ''bad'' of BadRequestError _ \<Rightarrow> 400 | OtherError _ \<Rightarrow> 500,
                               Error (BadRequestError ''bad''))]"
    by blast
  with unwritten
  have bad: "Responses (HandleError (snd example_config) ?ctx (BadRequestError ''bad'')) = [(400, ''bad'')]"
    by simp
  from inst[where err = "OtherError ''boom''"]
  have "\<not> ResponseWritten ?ctx \<and> ?h ?ctx = (?ctx, Some (OtherError ''boom'')) \<and> ResponseStatus ?ctx = 0 \<longrightarrow>
          Responses (fst (HandleFunc_action (snd example_config) ?h ?ctx)) =
            Responses ?ctx @ [(case OtherError ''boom'' of BadRequestError _ \<Rightarrow> 400 | OtherError _ \<Rightarrow> 500,
                               Error (OtherError ''boom''))]"
    by blast
  with unwritten fails
  have act: "Responses (fst (HandleFunc_action (snd example_config) ?h ?ctx)) = [(500, ''boom'')]"
    by simp
  from inst[where err = "OtherError ''boom''"]
  have "ResponseStatus ?ctx = 0 \<longrightarrow>
          Responses (HandleFunc_ensure_response (snd example_config) ?ctx) =
            Responses ?ctx @ [(500, ''unhandled request'')]"
    by blast
  with unwritten
  have backstop: "Responses (HandleFunc_ensure_response (snd example_config) ?ctx) =
                 [(500, ''unhandled request'')]"
    by simp
  from inst[where err = "OtherError ''boom''"] have nm: "Name (New ''api'') = ''api''"
    by blast
  from nm bad unwritten act backstop show ?thesis
    by simp
qed

section \<open>Properties of the versions\<close>

lemma GetVersion_found:
  assumes "versions_lookup a nm = Some p"
  shows "GetVersion H a nm = Some (p, a, H)"
proof -
  from assms obtain vs where "Application.versions a = Some vs"
    by (auto simp: versions_lookup_def split: option.splits)
  with assms show ?thesis
    by (simp add: GetVersion_def)
qed

lemma GetVersion_created:
  assumes "versions_lookup a nm = None"
  shows "GetVersion H a nm =
           Some (fresh H,
                 a\<lparr>Application.versions :=
                     Some ((case Application.versions a of None \<Rightarrow> Map.empty | Some vs \<Rightarrow> vs)
                            (nm \<mapsto> fresh H))\<rparr>,
                 H\<lparr>objects := (objects H)(fresh H \<mapsto>
                      \<lparr>version.name = nm, mux = NewMux, decoderPools = Map.empty,
                       encoderPools = Map.empty, encodableContentTypes = []\<rparr>),
                   fresh := Suc (fresh H)\<rparr>)"
  using assms
  by (cases "Application.versions a")
     (simp_all add: GetVersion_def newVersion_def versions_lookup_def Let_def)

lemma GetVersion_keeps:
  assumes "GetVersion H a n = Some (r, a', H')" and "versions_lookup a nm = Some p" and "p < fresh H"
  shows "versions_lookup a' nm = Some p \<and> objects H' p = objects H p \<and> p < fresh H'"
proof (cases "versions_lookup a n")
  case None
  from assms(1) GetVersion_created[OF None, of H]
  have a': "a' = a\<lparr>Application.versions :=
                     Some ((case Application.versions a of None \<Rightarrow> Map.empty | Some vs \<Rightarrow> vs)
                            (n \<mapsto> fresh H))\<rparr>"
    and H': "H' = H\<lparr>objects := (objects H)(fresh H \<mapsto>
                      \<lparr>version.name = n, mux = NewMux, decoderPools = Map.empty,
                       encoderPools = Map.empty, encodableContentTypes = []\<rparr>),
                   fresh := Suc (fresh H)\<rparr>"
    by auto
  from assms(2,3) None show ?thesis
    by (cases "n = nm") (auto simp: a' H' versions_lookup_def split: option.splits)
next
  case (Some q)
  from assms(1) GetVersion_found[OF Some, of H] have "a' = a" "H' = H"
    by simp_all
  with assms show ?thesis by simp
qed

lemma GetVersions_keeps:
  assumes "versions_lookup a nm = Some p" and "p < fresh H"
  shows "versions_lookup (fst (GetVersions ns (a, H))) nm = Some p
       \<and> objects (snd (GetVersions ns (a, H))) p = objects H p"
  using assms
proof (induction ns arbitrary: a H)
  case Nil
  then show ?case by simp
next
  case (Cons n ns)
  show ?case
  proof (cases "GetVersion H a n")
    case None
    with Cons.prems show ?thesis by simp
  next
    case (Some res)
    obtain r a' H' where res: "res = (r, a', H')" by (cases res)
    from GetVersion_keeps[OF Some[unfolded res] Cons.prems]
    have keep: "versions_lookup a' nm = Some p" "objects H' p = objects H p" "p < fresh H'"
      by simp_all
    from Cons.IH[OF keep(1) keep(3)] keep(2) Some res show ?thesis
      by simp
  qed
qed

text \<open>
  Claim C7. \<^verbatim>\<open>GetVersion(name)\<close> never panics. If the application has a version for
  \<open>name\<close> it returns that version and changes nothing. Otherwise it allocates a version
  object with that name, a new mux, empty decoder and encoder pools and an empty list of
  encodable content types, stores it under \<open>name\<close> and returns it. After a call, a
  second call with the same name returns the same object and changes nothing, and every
  version the application had before the call is still stored under its name, the
  object itself (allocated earlier, so below the allocation mark) untouched; the same
  holds after any further sequence of calls.
\<close>

theorem GetVersion_lazy:
  "(versions_lookup a nm = Some p \<longrightarrow> GetVersion H a nm = Some (p, a, H))
   \<and> (versions_lookup a nm = None \<longrightarrow>
        GetVersion H a nm =
          Some (fresh H,
                a\<lparr>Application.versions :=
                    Some ((case Application.versions a of None \<Rightarrow> Map.empty | Some vs \<Rightarrow> vs)
                           (nm \<mapsto> fresh H))\<rparr>,
                H\<lparr>objects := (objects H)(fresh H \<mapsto>
                     \<lparr>version.name = nm, mux = NewMux, decoderPools = Map.empty,
                      encoderPools = Map.empty, encodableContentTypes = []\<rparr>),
                  fresh := Suc (fresh H)\<rparr>))
   \<and> (GetVersion H a nm = Some (p, a', H') \<longrightarrow>
        GetVersion H' a' nm = Some (p, a', H')
        \<and> (\<forall>n q. versions_lookup a n = Some q \<longrightarrow>
              versions_lookup a' n = Some q \<and> (q < fresh H \<longrightarrow> objects H' q = objects H q)))
   \<and> (versions_lookup a nm = Some p \<and> p < fresh H \<longrightarrow>
        versions_lookup (fst (GetVersions ns (a, H))) nm = Some p
        \<and> objects (snd (GetVersions ns (a, H))) p = objects H p)
   \<and> GetVersion H a nm \<noteq> None"
proof -
  have total: "GetVersion H a nm \<noteq> None"
    by (cases "versions_lookup a nm") (simp_all add: GetVersion_created GetVersion_found)
  have again: "GetVersion H' a' nm = Some (p, a', H')
        \<and> (\<forall>n q. versions_lookup a n = Some q \<longrightarrow>
              versions_lookup a' n = Some q \<and> (q < fresh H \<longrightarrow> objects H' q = objects H q))"
    if got: "GetVersion H a nm = Some (p, a', H')"
  proof (cases "versions_lookup a nm")
    case None
    from got GetVersion_created[OF None, of H]
    have p: "p = fresh H"
      and a': "a' = a\<lparr>Application.versions :=
                     Some ((case Application.versions a of None \<Rightarrow> Map.empty | Some vs \<Rightarrow> vs)
                            (nm \<mapsto> fresh H))\<rparr>"
      and H': "H' = H\<lparr>objects := (objects H)(fresh H \<mapsto>
                      \<lparr>version.name = nm, mux = NewMux, decoderPools = Map.empty,
                       encoderPools = Map.empty, encodableContentTypes = []\<rparr>),
                   fresh := Suc (fresh H)\<rparr>"
      by auto
    have look: "versions_lookup a' nm = Some p"
      by (simp add: a' p versions_lookup_def)
    have keep: "versions_lookup a' n = Some q \<and> (q < fresh H \<longrightarrow> objects H' q = objects H q)"
      if "versions_lookup a n = Some q" for n q
      using that None
      by (cases "n = nm") (auto simp: a' H' versions_lookup_def split: option.splits)
    from GetVersion_found[OF look, of H'] keep show ?thesis
      by blast
  next
    case (Some q)
    from got GetVersion_found[OF Some, of H] have "p = q" "a' = a" "H' = H"
      by simp_all
    with Some GetVersion_found[OF Some, of H] show ?thesis
      by simp
  qed
  have later: "versions_lookup a nm = Some p \<and> p < fresh H \<longrightarrow>
        versions_lookup (fst (GetVersions ns (a, H))) nm = Some p
        \<and> objects (snd (GetVersions ns (a, H))) p = objects H p"
    using GetVersions_keeps[of a nm p H ns] by blast
  from total again later show ?thesis
    by (auto simp: GetVersion_found GetVersion_created)
qed

text \<open>
  On a new application and an empty store: the first call for "v1" creates the version
  at address 0, the second returns it and changes nothing, and a call for "v2" creates
  another version at address 1 and leaves "v1" where it was.
\<close>

theorem GetVersion_lazy_witness:
  "versions_lookup (New ''api'') ''v1'' = None
   \<and> GetVersion empty_heap (New ''api'') ''v1'' =
       Some (0, (New ''api'')\<lparr>Application.versions := Some [''v1'' \<mapsto> 0]\<rparr>,
             \<lparr>objects = [0 \<mapsto> \<lparr>version.name = ''v1'', mux = NewMux, decoderPools = Map.empty,
                               encoderPools = Map.empty, encodableContentTypes = []\<rparr>],
              fresh = 1\<rparr>)
   \<and> versions_lookup ((New ''api'')\<lparr>Application.versions := Some [''v1'' \<mapsto> 0]\<rparr>) ''v1'' = Some 0
   \<and> GetVersion \<lparr>objects = [0 \<mapsto> \<lparr>version.name = ''v1'', mux = NewMux, decoderPools = Map.empty,
                               encoderPools = Map.empty, encodableContentTypes = []\<rparr>],
                  fresh = 1\<rparr>
        ((New ''api'')\<lparr>Application.versions := Some [''v1'' \<mapsto> 0]\<rparr>) ''v1'' =
       Some (0, (New ''api'')\<lparr>Application.versions := Some [''v1'' \<mapsto> 0]\<rparr>,
             \<lparr>objects = [0 \<mapsto> \<lparr>version.name = ''v1'', mux = NewMux, decoderPools = Map.empty,
                               encoderPools = Map.empty, encodableContentTypes = []\<rparr>],
              fresh = 1\<rparr>)
   \<and> GetVersion \<lparr>objects = [0 \<mapsto> \<lparr>version.name = ''v1'', mux = NewMux, decoderPools = Map.empty,
                               encoderPools = Map.empty, encodableContentTypes = []\<rparr>],
                  fresh = 1\<rparr>
        ((New ''api'')\<lparr>Application.versions := Some [''v1'' \<mapsto> 0]\<rparr>) ''v2'' =
       Some (1, (New ''api'')\<lparr>Application.versions := Some [''v1'' \<mapsto> 0, ''v2'' \<mapsto> 1]\<rparr>,
             \<lparr>objects = [0 \<mapsto> \<lparr>version.name = ''v1'', mux = NewMux, decoderPools = Map.empty,
                               encoderPools = Map.empty, encodableContentTypes = []\<rparr>,
                          1 \<mapsto> \<lparr>version.name = ''v2'', mux = NewMux, decoderPools = Map.empty,
                               encoderPools = Map.empty, encodableContentTypes = []\<rparr>],
              fresh = 2\<rparr>)
   \<and> versions_lookup ((New ''api'')\<lparr>Application.versions := Some [''v1'' \<mapsto> 0, ''v2'' \<mapsto> 1]\<rparr>) ''v1''
       = Some 0
   \<and> versions_lookup
       (fst (GetVersions [''v2'', ''v3'', ''v1'']
          ((New ''api'')\<lparr>Application.versions := Some [''v1'' \<mapsto> 0]\<rparr>,
           \<lparr>objects = [0 \<mapsto> \<lparr>version.name = ''v1'', mux = NewMux, decoderPools = Map.empty,
                               encoderPools = Map.empty, encodableContentTypes = []\<rparr>],
            fresh = 1\<rparr>))) ''v1''
       = Some 0"
proof -
  let ?v1 = "\<lparr>version.name = ''v1'', mux = NewMux, decoderPools = Map.empty,
              encoderPools = Map.empty, encodableContentTypes = []\<rparr>"
  let ?v2 = "\<lparr>version.name = ''v2'', mux = NewMux, decoderPools = Map.empty,
              encoderPools = Map.empty, encodableContentTypes = []\<rparr>"
  let ?a1 = "(New ''api'')\<lparr>Application.versions := Some [''v1'' \<mapsto> 0]\<rparr>"
  let ?H1 = "\<lparr>objects = [0 \<mapsto> ?v1], fresh = 1\<rparr>"
  let ?a2 = "(New ''api'')\<lparr>Application.versions := Some [''v1'' \<mapsto> 0, ''v2'' \<mapsto> 1]\<rparr>"
  let ?H2 = "\<lparr>objects = [0 \<mapsto> ?v1, 1 \<mapsto> ?v2], fresh = 2\<rparr>"
  have absent: "versions_lookup (New ''api'') ''v1'' = None"
    by (simp add: versions_lookup_def New_def)
  have present: "versions_lookup ?a1 ''v1'' = Some 0"
    by (simp add: versions_lookup_def)
  have absent2: "versions_lookup ?a1 ''v2'' = None"
    by (simp add: versions_lookup_def)
  note first = GetVersion_lazy[where a = "New ''api''" and nm = "''v1''" and H = empty_heap
      and p = 0 and a' = ?a1 and H' = ?H1]
  note second = GetVersion_lazy[where a = ?a1 and nm = "''v1''" and H = ?H1
      and p = 0 and a' = ?a1 and H' = ?H1]
  note other = GetVersion_lazy[where a = ?a1 and nm = "''v2''" and H = ?H1
      and p = 1 and a' = ?a2 and H' = ?H2]
  from first absent have one: "GetVersion empty_heap (New ''api'') ''v1'' = Some (0, ?a1, ?H1)"
    by (simp add: empty_heap_def New_def)
  from second present have two: "GetVersion ?H1 ?a1 ''v1'' = Some (0, ?a1, ?H1)"
    by blast
  from other absent2 have three: "GetVersion ?H1 ?a1 ''v2'' = Some (1, ?a2, ?H2)"
    by (simp add: New_def fun_upd_twist)
  with other present have kept: "versions_lookup ?a2 ''v1'' = Some 0"
    by blast
  have below: "(0::nat) < fresh ?H1"
    by simp
  from second[where ns = "[''v2'', ''v3'', ''v1'']"] present below
  have later: "versions_lookup (fst (GetVersions [''v2'', ''v3'', ''v1''] (?a1, ?H1))) ''v1'' = Some 0"
    by blast
  from absent one present two three kept later show ?thesis
    by blast
qed

section \<open>ServeFiles on a new application\<close>

text \<open>
  On any application, \<^verbatim>\<open>ServeFiles\<close> returns an error exactly when the path has a
  colon or \<^verbatim>\<open>os.Stat\<close> fails on the file, and then it changes nothing; and on an
  application whose embedded version is set, it registers the handler for \<^verbatim>\<open>GET\<close> and
  the path otherwise.
\<close>

lemma ServeFiles_error_iff:
  "(\<exists>e m' H'. ServeFiles stat serve m H a path filename = Some (Some e, m', H'))
     = (CHR '':'' \<in> set path \<or> stat filename \<noteq> None)"
  by (auto simp: ServeFiles_def case_prod_beta Let_def split: option.splits)

lemma ServeFiles_error_unchanged:
  assumes "ServeFiles stat serve m H a path filename = Some (Some e, m', H')"
  shows "m' = m \<and> H' = H"
  using assms
  by (auto simp: ServeFiles_def case_prod_beta Let_def split: option.splits if_splits)

lemma ServeFiles_with_version:
  assumes "CHR '':'' \<notin> set path" and "stat filename = None"
    and "Application.version a = Some p" and "objects H p = Some v"
  shows "ServeFiles stat serve m H a path filename =
           Some (None,
                 snd (HandleFunc m (NewController a ''FileServer'') ''Serve'' (serve filename) None),
                 H\<lparr>objects := (objects H)(p \<mapsto>
                      v\<lparr>mux := mux v @
                        [(''GET'', path,
                          fst (HandleFunc m (NewController a ''FileServer'') ''Serve''
                                 (serve filename) None))]\<rparr>)\<rparr>)"
  using assms
  by (simp add: ServeFiles_def ServeMux_def Handle_def case_prod_beta Let_def)

text \<open>
  Claim C9 reads: \<^verbatim>\<open>ServeFiles\<close> returns an error exactly when the file does not exist
  or the path has a partial wildcard, and otherwise registers a GET handler and returns
  \<^verbatim>\<open>nil\<close>. On an application as \<^verbatim>\<open>New\<close> returns it, the embedded \<^verbatim>\<open>*version\<close> is
  \<^verbatim>\<open>nil\<close>: the call returns the error for a path with a colon, else the error for a
  file \<^verbatim>\<open>os.Stat\<close> fails on, and with neither it panics in \<^verbatim>\<open>app.ServeMux()\<close>
  instead of registering a route.
\<close>

theorem ServeFiles_on_New:
  "ServeFiles stat serve m H (New nm) path filename =
     (if CHR '':'' \<in> set path
      then Some (Some (OtherError ''path may only include wildcards that match the entire end of the URL (e.g. *filepath)''), m, H)
      else (case stat filename of
              Some err \<Rightarrow> Some (Some (OtherError (''ServeFiles: '' @ Error err)), m, H)
            | None \<Rightarrow> None))
   \<and> ServeFiles (\<lambda>f. None) serve example_memory empty_heap (New ''api'')
       ''/index.html'' ''/www/data/index.html'' = None"
  by (simp add: ServeFiles_def New_def Errorf_def case_prod_beta Let_def split: option.splits)

end
